theory Spec2Isabelle
  imports Complex_Main "HOL-Library.Char_ord" "HOL-Library.List_Lexorder"
    "HOL-Library.Monad_Syntax"
begin

section \<open>Values and errors\<close>

text \<open>
  The engine of \<^verbatim>\<open>src/renderer/types/index.ts\<close> works on JavaScript values. Numbers are
  modelled as \<^typ>\<open>real\<close>: arithmetic is exact, and NaN, the infinities and the rounding of
  IEEE doubles are outside the model. A plain object is the list of its own enumerable
  properties in enumeration order; an array is the object of its indices. Inherited
  properties (those of \<^verbatim>\<open>Object.prototype\<close>, of the wrapper prototypes and of the classes)
  and the own properties of string primitives are not represented.
\<close>

datatype jsval =
    Undefined
  | Null
  | Bool bool
  | Num real
  | Str string
  | Obj "(string \<times> jsval) list"

text \<open>The only exception the modelled code can raise is a \<^verbatim>\<open>TypeError\<close>.\<close>

datatype error = TypeError

fun typeof :: "jsval \<Rightarrow> string" where
  "typeof Undefined = ''undefined''"
| "typeof Null = ''object''"
| "typeof (Bool b) = ''boolean''"
| "typeof (Num n) = ''number''"
| "typeof (Str s) = ''string''"
| "typeof (Obj fs) = ''object''"

text \<open>\<^verbatim>\<open>!v\<close>: the falsy values.\<close>

fun falsy :: "jsval \<Rightarrow> bool" where
  "falsy Undefined = True"
| "falsy Null = True"
| "falsy (Bool b) = (\<not> b)"
| "falsy (Num n) = (n = 0)"
| "falsy (Str s) = (s = [])"
| "falsy (Obj fs) = False"

text \<open>
  \<^verbatim>\<open>o[k]\<close> as a read: a missing property reads as \<^verbatim>\<open>undefined\<close>, a read on
  \<^verbatim>\<open>null\<close> or \<^verbatim>\<open>undefined\<close> throws, a read on another primitive finds no own property.
\<close>

fun get_prop :: "jsval \<Rightarrow> string \<Rightarrow> error + jsval" where
  "get_prop (Obj fs) k = Inr (case map_of fs k of Some v \<Rightarrow> v | None \<Rightarrow> Undefined)"
| "get_prop Undefined k = Inl TypeError"
| "get_prop Null k = Inl TypeError"
| "get_prop v k = Inr Undefined"

text \<open>
  Writing a property of an object: an existing key keeps its place, a new key goes last.
\<close>

fun put_field :: "(string \<times> jsval) list \<Rightarrow> string \<Rightarrow> jsval \<Rightarrow> (string \<times> jsval) list" where
  "put_field [] k v = [(k, v)]"
| "put_field ((k', v') # fs) k v =
     (if k' = k then (k, v) # fs else (k', v') # put_field fs k v)"

text \<open>
  \<^verbatim>\<open>o[k] = v\<close>. Class bodies are strict code, so the write to a primitive throws.
\<close>

fun put_prop :: "jsval \<Rightarrow> string \<Rightarrow> jsval \<Rightarrow> error + jsval" where
  "put_prop (Obj fs) k v = Inr (Obj (put_field fs k v))"
| "put_prop u k v = Inl TypeError"

text \<open>
  A \<^verbatim>\<open>Map\<close> keeps its entries in insertion order; \<^verbatim>\<open>set\<close> on a key that is present
  replaces the value in place.
\<close>

fun map_set :: "('k \<times> 'v) list \<Rightarrow> 'k \<Rightarrow> 'v \<Rightarrow> ('k \<times> 'v) list" where
  "map_set [] k v = [(k, v)]"
| "map_set ((k', v') # m) k v = (if k' = k then (k, v) # m else (k', v') # map_set m k v)"

section \<open>Animation tracks\<close>

datatype EasingFunction =
    Linear
  | EaseIn
  | EaseOut
  | EaseInOut
  | Bounce
  | Elastic
  | Bezier real real real real

record Keyframe =
  time :: real
  kvalue :: jsval
  easing :: EasingFunction

record AnimationTrack =
  property :: string
  keyframes :: "Keyframe list"

text \<open>
  \<^verbatim>\<open>applyEasing\<close>. In the bounce branches \<^verbatim>\<open>(t -= c) * t\<close> updates \<^verbatim>\<open>t\<close> before the
  second factor reads it.
\<close>

fun applyEasing :: "real \<Rightarrow> EasingFunction \<Rightarrow> real" where
  "applyEasing t Linear = t"
| "applyEasing t EaseIn = t * t"
| "applyEasing t EaseOut = t * (2 - t)"
| "applyEasing t EaseInOut = (if t < 0.5 then 2 * t * t else - 1 + (4 - 2 * t) * t)"
| "applyEasing t Bounce =
     (if t < 1 / 2.75 then 7.5625 * t * t
      else if t < 2 / 2.75 then (let t' = t - 1.5 / 2.75 in 7.5625 * t' * t' + 0.75)
      else if t < 2.5 / 2.75 then (let t' = t - 2.25 / 2.75 in 7.5625 * t' * t' + 0.9375)
      else (let t' = t - 2.625 / 2.75 in 7.5625 * t' * t' + 0.984375))"
| "applyEasing t Elastic = 2 powr (- 10 * t) * sin ((t - 0.075) * (2 * pi) / 0.3) + 1"
| "applyEasing t (Bezier a b c d) = t"

text \<open>
  \<^verbatim>\<open>interpolate\<close>, the loop of its object branch first: for every key of \<^verbatim>\<open>from\<close>, a
  field that is a number in both values is blended into \<^verbatim>\<open>result\<close>. Reading
  \<^verbatim>\<open>to[key]\<close> throws when \<^verbatim>\<open>to\<close> is \<^verbatim>\<open>null\<close>, whose \<^verbatim>\<open>typeof\<close> is also
  \<^verbatim>\<open>'object'\<close>.
\<close>

fun interpolate_keys ::
  "string list \<Rightarrow> jsval \<Rightarrow> jsval \<Rightarrow> real \<Rightarrow> (string \<times> jsval) list
     \<Rightarrow> error + (string \<times> jsval) list" where
  "interpolate_keys [] from to progress result = Inr result"
| "interpolate_keys (key # keys) from to progress result =
     (case get_prop from key of
        Inl e \<Rightarrow> Inl e
      | Inr (Num a) \<Rightarrow>
          (case get_prop to key of
             Inl e \<Rightarrow> Inl e
           | Inr (Num b) \<Rightarrow>
               interpolate_keys keys from to progress
                 (put_field result key (Num (a + (b - a) * progress)))
           | Inr _ \<Rightarrow> interpolate_keys keys from to progress result)
      | Inr _ \<Rightarrow> interpolate_keys keys from to progress result)"

text \<open>The keys a \<^verbatim>\<open>for ... in\<close> loop visits; none for \<^verbatim>\<open>null\<close>.\<close>

fun enum_keys :: "jsval \<Rightarrow> string list" where
  "enum_keys (Obj fs) = map fst fs"
| "enum_keys v = []"

fun interpolate :: "jsval \<Rightarrow> jsval \<Rightarrow> real \<Rightarrow> error + jsval" where
  "interpolate (Num a) (Num b) progress = Inr (Num (a + (b - a) * progress))"
| "interpolate from to progress =
     (if typeof from = ''object'' \<and> typeof to = ''object'' then
        (case interpolate_keys (enum_keys from) from to progress [] of
           Inl e \<Rightarrow> Inl e
         | Inr result \<Rightarrow> Inr (Obj result))
      else Inr (if progress < 0.5 then from else to))"

text \<open>
  The blend of one field of two records: there is one when the field is a number in both.
\<close>

fun blend_field :: "jsval option \<Rightarrow> jsval option \<Rightarrow> real \<Rightarrow> jsval option" where
  "blend_field (Some (Num a)) (Some (Num b)) p = Some (Num (a + (b - a) * p))"
| "blend_field u v p = None"

text \<open>
  The loop of \<^verbatim>\<open>getValueAtTime\<close>: \<^verbatim>\<open>i\<close> is the index of the head of the keyframes
  still to visit, \<^verbatim>\<open>None\<close> stands for the index \<^verbatim>\<open>-1\<close>. The loop breaks at the first
  keyframe whose time is not below \<^verbatim>\<open>time\<close>.
\<close>

fun findIndices :: "Keyframe list \<Rightarrow> real \<Rightarrow> nat \<Rightarrow> nat option \<Rightarrow> nat option \<times> nat option" where
  "findIndices [] t i beforeIndex = (beforeIndex, None)"
| "findIndices (k # ks) t i beforeIndex =
     (let beforeIndex' = (if time k \<le> t then Some i else beforeIndex)
      in if time k \<ge> t then (beforeIndex', Some i)
         else findIndices ks t (i + 1) beforeIndex')"

text \<open>
  \<^verbatim>\<open>getValueAtTime\<close>. The \<^verbatim>\<open>null\<close> of an empty track is the value \<^const>\<open>Null\<close>: the
  caller cannot tell it from a keyframe whose value is \<^verbatim>\<open>null\<close>.
\<close>

definition getValueAtTime :: "AnimationTrack \<Rightarrow> real \<Rightarrow> error + jsval" where
  "getValueAtTime track t =
     (let kfs = keyframes track in
      if length kfs = 0 then Inr Null
      else
        (case findIndices kfs t 0 None of
           (None, _) \<Rightarrow> Inr (kvalue (kfs ! 0))
         | (Some beforeIndex, None) \<Rightarrow> Inr (kvalue (kfs ! (length kfs - 1)))
         | (Some beforeIndex, Some afterIndex) \<Rightarrow>
             if beforeIndex = afterIndex then Inr (kvalue (kfs ! beforeIndex))
             else
               (let before = kfs ! beforeIndex;
                    after = kfs ! afterIndex;
                    progress = (t - time before) / (time after - time before);
                    easedProgress = applyEasing progress (easing before)
                in interpolate (kvalue before) (kvalue after) easedProgress)))"

text \<open>
  \<^verbatim>\<open>addKeyframe\<close>: the keyframe goes before the first one with a later time, last when
  there is none.
\<close>

fun insertKeyframe :: "Keyframe \<Rightarrow> Keyframe list \<Rightarrow> Keyframe list" where
  "insertKeyframe kf [] = [kf]"
| "insertKeyframe kf (k # ks) =
     (if time k > time kf then kf # k # ks else k # insertKeyframe kf ks)"

definition addKeyframe :: "real \<Rightarrow> jsval \<Rightarrow> EasingFunction \<Rightarrow> AnimationTrack \<Rightarrow> AnimationTrack" where
  "addKeyframe t v e track =
     track\<lparr>keyframes := insertKeyframe \<lparr>time = t, kvalue = v, easing = e\<rparr> (keyframes track)\<rparr>"

definition newTrack :: "string \<Rightarrow> AnimationTrack" where
  "newTrack p = \<lparr>property = p, keyframes = []\<rparr>"

text \<open>A track whose keyframes are in time order, as \<^verbatim>\<open>addKeyframe\<close> keeps them.\<close>

definition time_ordered :: "Keyframe list \<Rightarrow> bool" where
  "time_ordered kfs = sorted_wrt (\<lambda>a b. time a \<le> time b) kfs"

text \<open>
  The track of the specification's scenario, \<^verbatim>\<open>{t:0, v:0, ease:linear}\<close> and
  \<^verbatim>\<open>{t:100, v:10, ease:ease-in}\<close>, and a track with two keyframes at one time.
\<close>

definition scenario_track :: AnimationTrack where
  "scenario_track =
     addKeyframe 100 (Num 10) EaseIn (addKeyframe 0 (Num 0) Linear (newTrack ''x''))"


section \<open>Applying an animation\<close>

record Animation =
  an_id :: string
  an_name :: string
  an_duration :: real
  tracks :: "(string \<times> AnimationTrack) list"
  loop :: string

text \<open>\<^verbatim>\<open>path.split('.')\<close>: never empty, the empty path has the one part \<^verbatim>\<open>''\<close>.\<close>

fun split_dot :: "string \<Rightarrow> string list" where
  "split_dot [] = [[]]"
| "split_dot (c # cs) =
     (if c = CHR ''.'' then [] # split_dot cs
      else (case split_dot cs of p # ps \<Rightarrow> (c # p) # ps | [] \<Rightarrow> [[c]]))"

text \<open>
  The walk of \<^verbatim>\<open>setPropertyValue\<close> over the parts still to visit, on the property tree
  of the shape. \<^verbatim>\<open>current\<close> is a reference in the source; in the tree the node that was
  written below is put back into its parent.
\<close>

fun set_path :: "jsval \<Rightarrow> string list \<Rightarrow> jsval \<Rightarrow> error + jsval" where
  "set_path current [] v = Inr current"
| "set_path current [leaf] v = put_prop current leaf v"
| "set_path current (part # parts) v =
     (case get_prop current part of
        Inl e \<Rightarrow> Inl e
      | Inr child \<Rightarrow>
          (case (if falsy child then put_prop current part (Obj []) else Inr current) of
             Inl e \<Rightarrow> Inl e
           | Inr current' \<Rightarrow>
               (case get_prop current' part of
                  Inl e \<Rightarrow> Inl e
                | Inr next \<Rightarrow>
                    (case set_path next parts v of
                       Inl e \<Rightarrow> Inl e
                     | Inr next' \<Rightarrow> put_prop current' part next'))))"

text \<open>
  The paths on which the walk meets no obstacle: every node that is already there and is
  walked through is an object or is falsy (and then replaced), and the node that receives
  the leaf is an object.
\<close>

fun is_object :: "jsval \<Rightarrow> bool" where
  "is_object (Obj fs) = True"
| "is_object v = False"

fun walkable :: "jsval \<Rightarrow> string list \<Rightarrow> bool" where
  "walkable current [] = True"
| "walkable current [leaf] = is_object current"
| "walkable current (part # parts) =
     (case current of
        Obj fs \<Rightarrow>
          (case map_of fs part of
             None \<Rightarrow> True
           | Some child \<Rightarrow> falsy child \<or> walkable child parts)
      | _ \<Rightarrow> False)"

definition setPropertyValue :: "jsval \<Rightarrow> string \<Rightarrow> jsval \<Rightarrow> error + jsval" where
  "setPropertyValue obj path v = set_path obj (split_dot path) v"

text \<open>\<^verbatim>\<open>applyToShape\<close>: the tracks in the order of the map, the first exception ends it.\<close>

fun applyTracks :: "(string \<times> AnimationTrack) list \<Rightarrow> jsval \<Rightarrow> real \<Rightarrow> error + jsval" where
  "applyTracks [] shape t = Inr shape"
| "applyTracks ((prop, track) # rest) shape t =
     (case getValueAtTime track t of
        Inl e \<Rightarrow> Inl e
      | Inr v \<Rightarrow>
          if v \<noteq> Null then
            (case setPropertyValue shape prop v of
               Inl e \<Rightarrow> Inl e
             | Inr shape' \<Rightarrow> applyTracks rest shape' t)
          else applyTracks rest shape t)"

definition applyToShape :: "Animation \<Rightarrow> jsval \<Rightarrow> real \<Rightarrow> error + jsval" where
  "applyToShape animation shape t = applyTracks (tracks animation) shape t"

definition newAnimation :: "string \<Rightarrow> string \<Rightarrow> real \<Rightarrow> Animation" where
  "newAnimation i n d = \<lparr>an_id = i, an_name = n, an_duration = d, tracks = [], loop = ''loop''\<rparr>"

text \<open>
  \<^verbatim>\<open>addTrack\<close> puts a new empty track under its property, and
  \<^verbatim>\<open>getTrack(p).addKeyframe(t, v, e)\<close> adds a keyframe to the track stored there.
\<close>

definition addTrack :: "string \<Rightarrow> Animation \<Rightarrow> Animation" where
  "addTrack p animation = animation\<lparr>tracks := map_set (tracks animation) p (newTrack p)\<rparr>"

definition addTrackKeyframe ::
  "string \<Rightarrow> real \<Rightarrow> jsval \<Rightarrow> EasingFunction \<Rightarrow> Animation \<Rightarrow> Animation" where
  "addTrackKeyframe p t v e animation =
     (case map_of (tracks animation) p of
        None \<Rightarrow> animation
      | Some track \<Rightarrow>
          animation\<lparr>tracks := map_set (tracks animation) p (addKeyframe t v e track)\<rparr>)"

text \<open>The own properties of a fresh \<^verbatim>\<open>Rectangle\<close>, as its constructors set them.\<close>

definition rectangle_props :: "string \<Rightarrow> string \<Rightarrow> real \<Rightarrow> real \<Rightarrow> jsval" where
  "rectangle_props i n w h =
     Obj [(''parent'', Null),
          (''id'', Str i),
          (''name'', Str n),
          (''transform'',
             Obj [(''position'', Obj [(''x'', Num 0), (''y'', Num 0)]),
                  (''scale'', Obj [(''x'', Num 1), (''y'', Num 1)]),
                  (''rotation'', Num 0),
                  (''pivot'', Obj [(''x'', Num 0), (''y'', Num 0)])]),
          (''fill'',
             Obj [(''type'', Str ''solid''),
                  (''color'', Obj [(''r'', Num 128), (''g'', Num 128), (''b'', Num 128),
                                   (''a'', Num 1)])]),
          (''stroke'', Null),
          (''opacity'', Num 1),
          (''visible'', Bool True),
          (''locked'', Bool False),
          (''width'', Num w),
          (''height'', Num h),
          (''cornerRadius'', Num 0)]"

text \<open>An animation whose one track names a path below the number \<^verbatim>\<open>opacity\<close>.\<close>

definition opacity_x_animation :: Animation where
  "opacity_x_animation =
     addTrackKeyframe ''opacity.x'' 0 (Num 5) Linear
       (addTrack ''opacity.x'' (newAnimation ''a'' ''A'' 1000))"

text \<open>An animation whose one track names a path of nodes that a fresh shape lacks.\<close>

definition stops_animation :: Animation where
  "stops_animation =
     addTrackKeyframe ''fill.gradient.stops.0.color.r'' 0 (Num 5) Linear
       (addTrack ''fill.gradient.stops.0.color.r'' (newAnimation ''a'' ''A'' 1000))"

section \<open>State machine\<close>

text \<open>
  Parameter and condition values: a boolean, a number or a string, or \<^verbatim>\<open>undefined\<close>
  for a parameter that was never set.
\<close>

datatype pvalue = PUndefined | PBool bool | PNum real | PStr string

record StateMachineState =
  st_id :: string
  st_name :: string
  animationId :: "string option"
  st_position :: "real \<times> real"

record Condition =
  c_type :: string
  parameter :: string
  operator :: string
  c_value :: pvalue

record Trigger =
  tr_type :: string
  targetId :: "string option"
  tr_key :: "string option"
  eventName :: "string option"

record Event =
  ev_type :: string
  ev_target :: "string option"
  ev_key :: "string option"

record StateTransition =
  t_from :: string
  t_to :: string
  conditions :: "Condition list"
  triggers :: "Trigger list"
  duration :: "real option"

record StateMachine =
  sm_id :: string
  sm_name :: string
  states :: "(string \<times> StateMachineState) list"
  transitions :: "StateTransition list"
  parameters :: "(string \<times> pvalue) list"
  currentState :: string
  entryState :: string

definition newStateMachine :: "string \<Rightarrow> string \<Rightarrow> StateMachine" where
  "newStateMachine i n =
     \<lparr>sm_id = i, sm_name = n, states = [], transitions = [], parameters = [],
      currentState = ''entry'', entryState = ''entry''\<rparr>"

definition addState :: "string \<Rightarrow> string \<Rightarrow> string option \<Rightarrow> StateMachine \<Rightarrow> StateMachine" where
  "addState i n a sm =
     sm\<lparr>states := map_set (states sm) i
            \<lparr>st_id = i, st_name = n, animationId = a, st_position = (0, 0)\<rparr>\<rparr>"

definition addTransition ::
  "string \<Rightarrow> string \<Rightarrow> Trigger list \<Rightarrow> Condition list \<Rightarrow> StateMachine \<Rightarrow> StateMachine" where
  "addTransition f t trg cnd sm =
     sm\<lparr>transitions := transitions sm @
            [\<lparr>t_from = f, t_to = t, conditions = cnd, triggers = trg, duration = None\<rparr>]\<rparr>"

definition setParameter :: "string \<Rightarrow> pvalue \<Rightarrow> StateMachine \<Rightarrow> StateMachine" where
  "setParameter n v sm = sm\<lparr>parameters := map_set (parameters sm) n v\<rparr>"

text \<open>An optional string in a condition position: absent and empty are falsy.\<close>

fun truthy_str :: "string option \<Rightarrow> bool" where
  "truthy_str None = False"
| "truthy_str (Some s) = (s \<noteq> [])"

text \<open>The callback of \<^verbatim>\<open>triggers.some\<close>.\<close>

definition trigger_matches :: "Event \<Rightarrow> Trigger \<Rightarrow> bool" where
  "trigger_matches event trigger =
     (if tr_type trigger \<noteq> ev_type event then False
      else if truthy_str (targetId trigger) \<and> targetId trigger \<noteq> ev_target event then False
      else if truthy_str (tr_key trigger) \<and> tr_key trigger \<noteq> ev_key event then False
      else True)"

text \<open>
  The relational operators convert their operands to numbers unless both are strings.
  \<open>strnum\<close> is JavaScript's conversion of a string to a number, \<^const>\<open>None\<close> for NaN; it
  is a parameter of the model.
\<close>

fun to_number :: "(string \<Rightarrow> real option) \<Rightarrow> pvalue \<Rightarrow> real option" where
  "to_number strnum PUndefined = None"
| "to_number strnum (PBool b) = Some (if b then 1 else 0)"
| "to_number strnum (PNum n) = Some n"
| "to_number strnum (PStr s) = strnum s"

fun js_less :: "(string \<Rightarrow> real option) \<Rightarrow> pvalue \<Rightarrow> pvalue \<Rightarrow> bool" where
  "js_less strnum (PStr s) (PStr t) = (s < t)"
| "js_less strnum a b =
     (case (to_number strnum a, to_number strnum b) of
        (Some m, Some n) \<Rightarrow> m < n
      | _ \<Rightarrow> False)"

fun js_less_eq :: "(string \<Rightarrow> real option) \<Rightarrow> pvalue \<Rightarrow> pvalue \<Rightarrow> bool" where
  "js_less_eq strnum (PStr s) (PStr t) = (s \<le> t)"
| "js_less_eq strnum a b =
     (case (to_number strnum a, to_number strnum b) of
        (Some m, Some n) \<Rightarrow> m \<le> n
      | _ \<Rightarrow> False)"

text \<open>The callback of \<^verbatim>\<open>conditions.every\<close>, with its \<^verbatim>\<open>switch\<close>.\<close>

definition evalCondition ::
  "(string \<Rightarrow> real option) \<Rightarrow> (string \<times> pvalue) list \<Rightarrow> Condition \<Rightarrow> bool" where
  "evalCondition strnum params condition =
     (let v = (case map_of params (parameter condition) of Some u \<Rightarrow> u | None \<Rightarrow> PUndefined)
      in if operator condition = ''=='' then v = c_value condition
         else if operator condition = ''!='' then v \<noteq> c_value condition
         else if operator condition = ''>'' then js_less strnum (c_value condition) v
         else if operator condition = ''<'' then js_less strnum v (c_value condition)
         else if operator condition = ''>='' then js_less_eq strnum (c_value condition) v
         else if operator condition = ''<='' then js_less_eq strnum v (c_value condition)
         else False)"

text \<open>The loop of \<^verbatim>\<open>checkTransitions\<close>; each \<^verbatim>\<open>continue\<close> goes on with the rest.\<close>

fun scanTransitions ::
  "(string \<Rightarrow> real option) \<Rightarrow> Event option \<Rightarrow> (string \<times> pvalue) list \<Rightarrow> string
     \<Rightarrow> StateTransition list \<Rightarrow> string option" where
  "scanTransitions strnum event params cur [] = None"
| "scanTransitions strnum event params cur (transition # rest) =
     (if t_from transition \<noteq> cur then scanTransitions strnum event params cur rest
      else if (case event of
                 None \<Rightarrow> False
               | Some e \<Rightarrow> length (triggers transition) > 0
                           \<and> \<not> list_ex (trigger_matches e) (triggers transition))
        then scanTransitions strnum event params cur rest
      else if length (conditions transition) > 0
              \<and> \<not> list_all (evalCondition strnum params) (conditions transition)
        then scanTransitions strnum event params cur rest
      else Some (t_to transition))"

definition checkTransitions ::
  "(string \<Rightarrow> real option) \<Rightarrow> Event option \<Rightarrow> StateMachine \<Rightarrow> string option \<times> StateMachine" where
  "checkTransitions strnum event sm =
     (case scanTransitions strnum event (parameters sm) (currentState sm) (transitions sm) of
        None \<Rightarrow> (None, sm)
      | Some target \<Rightarrow> (Some target, sm\<lparr>currentState := target\<rparr>))"

text \<open>The state machines the four mutators produce from a fresh one.\<close>

inductive reachable :: "(string \<Rightarrow> real option) \<Rightarrow> StateMachine \<Rightarrow> bool"
  for strnum :: "string \<Rightarrow> real option" where
  constructed: "reachable strnum (newStateMachine i n)"
| added_state: "reachable strnum sm \<Longrightarrow> reachable strnum (addState i n a sm)"
| added_transition: "reachable strnum sm \<Longrightarrow> reachable strnum (addTransition f t trg cnd sm)"
| set_parameter: "reachable strnum sm \<Longrightarrow> reachable strnum (setParameter n v sm)"
| checked: "reachable strnum sm \<Longrightarrow> reachable strnum (snd (checkTransitions strnum event sm))"

text \<open>
  The transition rule in the words of the specification: a transition is a candidate when
  it leaves the current state, its trigger list is empty or holds a trigger matching the
  given event, and its condition list is empty or every condition holds. A trigger matches
  an event of its type whose target and key are those the trigger carries.
\<close>

definition spec_trigger_matches :: "Event \<Rightarrow> Trigger \<Rightarrow> bool" where
  "spec_trigger_matches event trigger =
     (tr_type trigger = ev_type event
      \<and> (targetId trigger = None \<or> targetId trigger = ev_target event)
      \<and> (tr_key trigger = None \<or> tr_key trigger = ev_key event))"

definition spec_candidate ::
  "(string \<Rightarrow> real option) \<Rightarrow> Event option \<Rightarrow> StateMachine \<Rightarrow> StateTransition \<Rightarrow> bool" where
  "spec_candidate strnum event sm transition =
     (t_from transition = currentState sm
      \<and> (triggers transition = []
          \<or> (case event of
                None \<Rightarrow> False
              | Some e \<Rightarrow> list_ex (spec_trigger_matches e) (triggers transition)))
      \<and> (conditions transition = []
          \<or> list_all (evalCondition strnum (parameters sm)) (conditions transition)))"

text \<open>
  The rule the code implements: without an event the triggers are not looked at, and an
  empty \<^verbatim>\<open>targetId\<close> or \<^verbatim>\<open>key\<close> counts as absent.
\<close>

definition candidate ::
  "(string \<Rightarrow> real option) \<Rightarrow> Event option \<Rightarrow> StateMachine \<Rightarrow> StateTransition \<Rightarrow> bool" where
  "candidate strnum event sm transition =
     (t_from transition = currentState sm
      \<and> (triggers transition = []
          \<or> (case event of
                None \<Rightarrow> True
              | Some e \<Rightarrow> list_ex (trigger_matches e) (triggers transition)))
      \<and> (conditions transition = []
          \<or> list_all (evalCondition strnum (parameters sm)) (conditions transition)))"

text \<open>Committing the first candidate in declaration order.\<close>

definition commit_first ::
  "(StateTransition \<Rightarrow> bool) \<Rightarrow> StateMachine \<Rightarrow> string option \<times> StateMachine" where
  "commit_first P sm =
     (case find P (transitions sm) of
        None \<Rightarrow> (None, sm)
      | Some transition \<Rightarrow> (Some (t_to transition), sm\<lparr>currentState := t_to transition\<rparr>))"

definition no_numbers :: "string \<Rightarrow> real option" where
  "no_numbers s = None"

definition click_machine :: StateMachine where
  "click_machine =
     addTransition ''entry'' ''pressed''
       [\<lparr>tr_type = ''click'', targetId = None, tr_key = None, eventName = None\<rparr>] []
       (addState ''pressed'' ''Pressed'' None
         (addState ''entry'' ''Entry'' None (newStateMachine ''m'' ''M'')))"

definition ghost_machine :: StateMachine where
  "ghost_machine =
     addTransition ''entry'' ''ghost'' [] []
       (addState ''entry'' ''Entry'' None (newStateMachine ''m'' ''M''))"

section \<open>The shape graph\<close>

text \<open>
  Shapes are objects with identity: a group lists its children by reference, a shape
  refers back to its parent, and a transform, a fill or a stroke is an object that two
  shapes can share. The store maps addresses to objects, one map for each kind of object.
  Gradients and dash arrays are only referred to.
\<close>

type_synonym addr = nat

record Vector2 =
  vec_x :: real
  vec_y :: real

record Transform =
  position :: addr
  scale :: addr
  rotation :: real
  pivot :: addr

record Color =
  red :: real
  green :: real
  blue :: real
  alpha :: real

record Fill =
  fill_type :: string
  fill_color :: "addr option"
  fill_gradient :: "addr option"

record Stroke =
  stroke_color :: addr
  stroke_width :: real
  cap :: string
  join :: string
  dashArray :: "addr option"

datatype ShapeKind =
    RectangleKind (width: real) (height: real) (cornerRadius: real)
  | EllipseKind (radiusX: real) (radiusY: real)
  | PathKind (pathData: string)
  | GroupKind (children: "addr list")

record Shape =
  shape_id :: string
  shape_name :: string
  transform :: addr
  fill :: addr
  stroke :: "addr option"
  opacity :: real
  visible :: bool
  locked :: bool
  parent :: "addr option"
  kind :: ShapeKind

record store =
  vectors :: "addr \<rightharpoonup> Vector2"
  transforms :: "addr \<rightharpoonup> Transform"
  colors :: "addr \<rightharpoonup> Color"
  fills :: "addr \<rightharpoonup> Fill"
  strokes :: "addr \<rightharpoonup> Stroke"
  shapes :: "addr \<rightharpoonup> Shape"
  next_addr :: addr

definition empty_store :: store where
  "empty_store =
     \<lparr>vectors = Map.empty, transforms = Map.empty, colors = Map.empty, fills = Map.empty,
      strokes = Map.empty, shapes = Map.empty, next_addr = 0\<rparr>"

text \<open>Object creation: the new object gets the next address.\<close>

definition alloc_vector :: "Vector2 \<Rightarrow> store \<Rightarrow> addr \<times> store" where
  "alloc_vector v s =
     (next_addr s, s\<lparr>vectors := (vectors s)(next_addr s \<mapsto> v), next_addr := next_addr s + 1\<rparr>)"

definition alloc_transform :: "Transform \<Rightarrow> store \<Rightarrow> addr \<times> store" where
  "alloc_transform v s =
     (next_addr s,
      s\<lparr>transforms := (transforms s)(next_addr s \<mapsto> v), next_addr := next_addr s + 1\<rparr>)"

definition alloc_color :: "Color \<Rightarrow> store \<Rightarrow> addr \<times> store" where
  "alloc_color v s =
     (next_addr s, s\<lparr>colors := (colors s)(next_addr s \<mapsto> v), next_addr := next_addr s + 1\<rparr>)"

definition alloc_fill :: "Fill \<Rightarrow> store \<Rightarrow> addr \<times> store" where
  "alloc_fill v s =
     (next_addr s, s\<lparr>fills := (fills s)(next_addr s \<mapsto> v), next_addr := next_addr s + 1\<rparr>)"

definition alloc_stroke :: "Stroke \<Rightarrow> store \<Rightarrow> addr \<times> store" where
  "alloc_stroke v s =
     (next_addr s, s\<lparr>strokes := (strokes s)(next_addr s \<mapsto> v), next_addr := next_addr s + 1\<rparr>)"

definition alloc_shape :: "Shape \<Rightarrow> store \<Rightarrow> addr \<times> store" where
  "alloc_shape v s =
     (next_addr s, s\<lparr>shapes := (shapes s)(next_addr s \<mapsto> v), next_addr := next_addr s + 1\<rparr>)"

text \<open>A field write on the shape at an address.\<close>

definition update_shape :: "addr \<Rightarrow> (Shape \<Rightarrow> Shape) \<Rightarrow> store \<Rightarrow> store" where
  "update_shape a f s = s\<lparr>shapes := (shapes s)(a := map_option f (shapes s a))\<rparr>"

text \<open>
  The constructor of \<^verbatim>\<open>Shape\<close>, with the fields its subclass adds: a fresh transform
  with its three vectors, a fresh solid grey fill, no stroke, no parent.
\<close>

definition new_Shape :: "string \<Rightarrow> string \<Rightarrow> ShapeKind \<Rightarrow> store \<Rightarrow> addr \<times> store" where
  "new_Shape i n k s0 =
     (let (p, s1) = alloc_vector \<lparr>vec_x = 0, vec_y = 0\<rparr> s0;
          (sc, s2) = alloc_vector \<lparr>vec_x = 1, vec_y = 1\<rparr> s1;
          (pv, s3) = alloc_vector \<lparr>vec_x = 0, vec_y = 0\<rparr> s2;
          (t, s4) = alloc_transform \<lparr>position = p, scale = sc, rotation = 0, pivot = pv\<rparr> s3;
          (c, s5) = alloc_color \<lparr>red = 128, green = 128, blue = 128, alpha = 1\<rparr> s4;
          (f, s6) = alloc_fill \<lparr>fill_type = ''solid'', fill_color = Some c, fill_gradient = None\<rparr> s5
      in alloc_shape
           \<lparr>shape_id = i, shape_name = n, transform = t, fill = f, stroke = None, opacity = 1,
            visible = True, locked = False, parent = None, kind = k\<rparr> s6)"

definition new_Rectangle :: "string \<Rightarrow> string \<Rightarrow> real \<Rightarrow> real \<Rightarrow> store \<Rightarrow> addr \<times> store" where
  "new_Rectangle i n w h s = new_Shape i n (RectangleKind w h 0) s"

definition new_Ellipse :: "string \<Rightarrow> string \<Rightarrow> real \<Rightarrow> real \<Rightarrow> store \<Rightarrow> addr \<times> store" where
  "new_Ellipse i n rx ry s = new_Shape i n (EllipseKind rx ry) s"

definition new_Path :: "string \<Rightarrow> string \<Rightarrow> string \<Rightarrow> store \<Rightarrow> addr \<times> store" where
  "new_Path i n d s = new_Shape i n (PathKind d) s"

definition new_Group :: "string \<Rightarrow> string \<Rightarrow> store \<Rightarrow> addr \<times> store" where
  "new_Group i n s = new_Shape i n (GroupKind []) s"

definition children_of :: "store \<Rightarrow> addr \<Rightarrow> addr list" where
  "children_of s g =
     (case shapes s g of
        Some sh \<Rightarrow> (case kind sh of GroupKind cs \<Rightarrow> cs | _ \<Rightarrow> [])
      | None \<Rightarrow> [])"

definition parent_of :: "store \<Rightarrow> addr \<Rightarrow> addr option" where
  "parent_of s a = (case shapes s a of Some sh \<Rightarrow> parent sh | None \<Rightarrow> None)"


text \<open>
  \<^verbatim>\<open>Group.addChild\<close>, called on the group at \<open>this\<close>: the parent is set, then the shape
  is pushed.
\<close>

definition set_children :: "addr list \<Rightarrow> Shape \<Rightarrow> Shape" where
  "set_children cs sh = (case kind sh of GroupKind old \<Rightarrow> sh\<lparr>kind := GroupKind cs\<rparr> | _ \<Rightarrow> sh)"

definition addChild :: "addr \<Rightarrow> addr \<Rightarrow> store \<Rightarrow> store" where
  "addChild this shape s =
     (let s1 = update_shape shape (\<lambda>sh. sh\<lparr>parent := Some this\<rparr>) s
      in update_shape this (set_children (children_of s1 this @ [shape])) s1)"


text \<open>The spread \<^verbatim>\<open>{ ...o }\<close>: a new object with the fields of the old one.\<close>

definition spread_transform :: "addr \<Rightarrow> store \<Rightarrow> (addr \<times> store) option" where
  "spread_transform a s = map_option (\<lambda>t. alloc_transform t s) (transforms s a)"

definition spread_fill :: "addr \<Rightarrow> store \<Rightarrow> (addr \<times> store) option" where
  "spread_fill a s = map_option (\<lambda>f. alloc_fill f s) (fills s a)"

definition spread_stroke :: "addr \<Rightarrow> store \<Rightarrow> (addr \<times> store) option" where
  "spread_stroke a s = map_option (\<lambda>k. alloc_stroke k s) (strokes s a)"

text \<open>The suffix \<^verbatim>\<open>' '\<close> and the two characters U+526F U+672C, in UTF-8.\<close>

definition copy_suffix :: string where
  "copy_suffix = [CHR 0x20, CHR 0xE5, CHR 0x89, CHR 0xAF, CHR 0xE6, CHR 0x9C, CHR 0xAC]"

text \<open>The statements that \<^verbatim>\<open>clone\<close> of a rectangle, an ellipse and a path share.\<close>

definition copy_paint :: "Shape \<Rightarrow> addr \<Rightarrow> store \<Rightarrow> store option" where
  "copy_paint this cloned s0 =
     do {
       (t, s1) \<leftarrow> spread_transform (transform this) s0;
       let s2 = update_shape cloned (\<lambda>sh. sh\<lparr>transform := t\<rparr>) s1;
       (f, s3) \<leftarrow> spread_fill (fill this) s2;
       let s4 = update_shape cloned (\<lambda>sh. sh\<lparr>fill := f\<rparr>) s3;
       (k, s5) \<leftarrow> (case stroke this of
                      None \<Rightarrow> Some (None, s4)
                    | Some a \<Rightarrow> map_option (\<lambda>(b, s'). (Some b, s')) (spread_stroke a s4));
       let s6 = update_shape cloned (\<lambda>sh. sh\<lparr>stroke := k\<rparr>) s5;
       Some (update_shape cloned (\<lambda>sh. sh\<lparr>opacity := opacity this\<rparr>) s6)
     }"

text \<open>
  \<^verbatim>\<open>clone\<close>, by the class of the receiver. The recursion of \<^verbatim>\<open>Group.clone\<close> follows the
  references of the store, so it is bounded by fuel; \<^const>\<open>None\<close> is a call that does
  not return an object (the fuel is used up, or a reference dangles).
\<close>

fun clone :: "nat \<Rightarrow> addr \<Rightarrow> store \<Rightarrow> (addr \<times> store) option"
and clone_children :: "nat \<Rightarrow> addr \<Rightarrow> addr list \<Rightarrow> store \<Rightarrow> store option" where
  "clone 0 this s = None"
| "clone (Suc n) this s =
     (case shapes s this of
        None \<Rightarrow> None
      | Some sh \<Rightarrow>
          (case kind sh of
             RectangleKind w h cr \<Rightarrow>
               do {
                 let (cloned, s1) =
                   new_Rectangle (shape_id sh @ ''_clone'') (shape_name sh @ copy_suffix) w h s;
                 s2 \<leftarrow> copy_paint sh cloned s1;
                 Some (cloned, update_shape cloned (\<lambda>c. c\<lparr>kind := RectangleKind w h cr\<rparr>) s2)
               }
           | EllipseKind rx ry \<Rightarrow>
               do {
                 let (cloned, s1) =
                   new_Ellipse (shape_id sh @ ''_clone'') (shape_name sh @ copy_suffix) rx ry s;
                 s2 \<leftarrow> copy_paint sh cloned s1;
                 Some (cloned, s2)
               }
           | PathKind d \<Rightarrow>
               do {
                 let (cloned, s1) =
                   new_Path (shape_id sh @ ''_clone'') (shape_name sh @ copy_suffix) d s;
                 s2 \<leftarrow> copy_paint sh cloned s1;
                 Some (cloned, s2)
               }
           | GroupKind cs \<Rightarrow>
               do {
                 let (cloned, s1) =
                   new_Group (shape_id sh @ ''_clone'') (shape_name sh @ copy_suffix) s;
                 (t, s2) \<leftarrow> spread_transform (transform sh) s1;
                 let s3 = update_shape cloned (\<lambda>c. c\<lparr>transform := t\<rparr>) s2;
                 let s4 = update_shape cloned (\<lambda>c. c\<lparr>opacity := opacity sh\<rparr>) s3;
                 s5 \<leftarrow> clone_children n cloned cs s4;
                 Some (cloned, s5)
               }))"
| "clone_children n cloned [] s = Some s"
| "clone_children n cloned (child # rest) s =
     (case clone n child s of
        None \<Rightarrow> None
      | Some (c, s1) \<Rightarrow> clone_children n cloned rest (addChild cloned c s1))"

text \<open>\<^verbatim>\<open>shape.transform.position.x = v\<close> and the read of the same path.\<close>

definition set_position_x :: "addr \<Rightarrow> real \<Rightarrow> store \<Rightarrow> store" where
  "set_position_x a v s =
     (case shapes s a of
        None \<Rightarrow> s
      | Some sh \<Rightarrow>
          (case transforms s (transform sh) of
             None \<Rightarrow> s
           | Some t \<Rightarrow>
               s\<lparr>vectors := (vectors s)(position t :=
                    map_option (\<lambda>p. p\<lparr>vec_x := v\<rparr>) (vectors s (position t)))\<rparr>))"

definition get_position_x :: "addr \<Rightarrow> store \<Rightarrow> real option" where
  "get_position_x a s =
     (case shapes s a of
        None \<Rightarrow> None
      | Some sh \<Rightarrow>
          (case transforms s (transform sh) of
             None \<Rightarrow> None
           | Some t \<Rightarrow> map_option vec_x (vectors s (position t))))"

section \<open>The exporter\<close>

text \<open>
  What the exporter reads of a project is its structure: the shapes of an artboard with
  their field values and, for a group, its children. Transform, fill and stroke are plain
  objects and are values here (\<^const>\<open>Null\<close> for no stroke).
\<close>

record ShapeFields =
  sf_id :: string
  sf_name :: string
  sf_transform :: jsval
  sf_fill :: jsval
  sf_stroke :: jsval
  sf_opacity :: real
  sf_visible :: bool
  sf_locked :: bool

datatype shape_tree =
    RectangleT ShapeFields real real real
  | EllipseT ShapeFields real real
  | PathT ShapeFields string
  | GroupT ShapeFields "shape_tree list"

record Artboard =
  ab_id :: string
  ab_name :: string
  ab_width :: real
  ab_height :: real
  ab_shapes :: "shape_tree list"

record Asset =
  as_id :: string
  as_name :: string
  as_type :: string
  as_data :: "nat list"

record RivProject =
  version :: string
  artboards :: "Artboard list"
  animations :: "Animation list"
  stateMachines :: "StateMachine list"
  assets :: "Asset list"

text \<open>
  The object that \<^verbatim>\<open>exportToRiv\<close> builds and hands to \<^verbatim>\<open>JSON.stringify\<close>. The
  constructor of a shape record stands for its \<^verbatim>\<open>type\<close> field (\<^verbatim>\<open>'rectangle'\<close>,
  \<^verbatim>\<open>'ellipse'\<close>, \<^verbatim>\<open>'path'\<close>); \<open>PlainDoc\<close> is the record without one.
\<close>

record BaseDoc =
  d_id :: string
  d_name :: string
  d_transform :: jsval
  d_opacity :: real
  d_visible :: bool

datatype shape_doc =
    RectangleDoc BaseDoc real real real jsval jsval
  | EllipseDoc BaseDoc real real jsval jsval
  | PathDoc BaseDoc string jsval jsval
  | PlainDoc BaseDoc

record ArtboardDoc =
  abd_id :: string
  abd_name :: string
  abd_width :: real
  abd_height :: real
  abd_shapes :: "shape_doc list"

record TrackDoc =
  td_property :: string
  td_keyframes :: "Keyframe list"

record AnimationDoc =
  and_id :: string
  and_name :: string
  and_duration :: real
  and_loop :: string
  and_tracks :: "TrackDoc list"

record StateMachineDoc =
  smd_id :: string
  smd_name :: string
  smd_states :: "StateMachineState list"
  smd_transitions :: "StateTransition list"
  smd_entryState :: string

record AssetDoc =
  asd_id :: string
  asd_name :: string
  asd_type :: string
  asd_data :: string

record ProjectDoc =
  pd_version :: string
  pd_artboards :: "ArtboardDoc list"
  pd_animations :: "AnimationDoc list"
  pd_stateMachines :: "StateMachineDoc list"
  pd_assets :: "AssetDoc list"

definition base_doc :: "ShapeFields \<Rightarrow> BaseDoc" where
  "base_doc shape =
     \<lparr>d_id = sf_id shape, d_name = sf_name shape, d_transform = sf_transform shape,
      d_opacity = sf_opacity shape, d_visible = sf_visible shape\<rparr>"

text \<open>\<^verbatim>\<open>serializeShape\<close>: a group falls through the \<^verbatim>\<open>instanceof\<close> chain to \<^verbatim>\<open>base\<close>.\<close>

fun serializeShape :: "shape_tree \<Rightarrow> shape_doc" where
  "serializeShape (RectangleT shape w h cr) =
     RectangleDoc (base_doc shape) w h cr (sf_fill shape) (sf_stroke shape)"
| "serializeShape (EllipseT shape rx ry) =
     EllipseDoc (base_doc shape) rx ry (sf_fill shape) (sf_stroke shape)"
| "serializeShape (PathT shape d) =
     PathDoc (base_doc shape) d (sf_fill shape) (sf_stroke shape)"
| "serializeShape (GroupT shape cs) = PlainDoc (base_doc shape)"

definition serializeArtboard :: "Artboard \<Rightarrow> ArtboardDoc" where
  "serializeArtboard artboard =
     \<lparr>abd_id = ab_id artboard, abd_name = ab_name artboard, abd_width = ab_width artboard,
      abd_height = ab_height artboard, abd_shapes = map serializeShape (ab_shapes artboard)\<rparr>"

definition serializeAnimation :: "Animation \<Rightarrow> AnimationDoc" where
  "serializeAnimation animation =
     \<lparr>and_id = an_id animation, and_name = an_name animation,
      and_duration = an_duration animation, and_loop = loop animation,
      and_tracks =
        map (\<lambda>(prop, track). \<lparr>td_property = prop, td_keyframes = keyframes track\<rparr>)
          (tracks animation)\<rparr>"

definition serializeStateMachine :: "StateMachine \<Rightarrow> StateMachineDoc" where
  "serializeStateMachine stateMachine =
     \<lparr>smd_id = sm_id stateMachine, smd_name = sm_name stateMachine,
      smd_states = map snd (states stateMachine),
      smd_transitions = transitions stateMachine,
      smd_entryState = entryState stateMachine\<rparr>"

text \<open>
  The functions of the JavaScript runtime that the exporter calls are parameters of the
  model: the number of arguments a call can take, \<^verbatim>\<open>btoa\<close> of the string of the bytes,
  \<^verbatim>\<open>JSON.stringify\<close> of the object and \<^verbatim>\<open>TextEncoder.encode\<close> of the text.
\<close>

record runtime =
  max_arguments :: nat
  btoa_bytes :: "nat list \<Rightarrow> string"
  json_stringify :: "ProjectDoc \<Rightarrow> string"
  text_encode :: "string \<Rightarrow> nat list"

datatype export_error = RangeError

text \<open>
  \<^verbatim>\<open>serializeAsset\<close>: \<^verbatim>\<open>String.fromCharCode(...bytes)\<close> passes every byte as an argument
  of its own and throws a \<^verbatim>\<open>RangeError\<close> when there are more than a call can take.
\<close>

definition serializeAsset :: "runtime \<Rightarrow> Asset \<Rightarrow> export_error + AssetDoc" where
  "serializeAsset rt asset =
     (if length (as_data asset) > max_arguments rt then Inl RangeError
      else Inr \<lparr>asd_id = as_id asset, asd_name = as_name asset, asd_type = as_type asset,
                asd_data = btoa_bytes rt (as_data asset)\<rparr>)"

text \<open>\<^verbatim>\<open>project.assets.map\<close>: the first exception ends it.\<close>

fun serializeAssets :: "runtime \<Rightarrow> Asset list \<Rightarrow> export_error + AssetDoc list" where
  "serializeAssets rt [] = Inr []"
| "serializeAssets rt (asset # rest) =
     (case serializeAsset rt asset of
        Inl e \<Rightarrow> Inl e
      | Inr doc \<Rightarrow>
          (case serializeAssets rt rest of
             Inl e \<Rightarrow> Inl e
           | Inr docs \<Rightarrow> Inr (doc # docs)))"

text \<open>
  \<^verbatim>\<open>exportToRiv\<close>: the object is built field by field, turned into JSON text and
  encoded; the result is the bytes.
\<close>

definition exportToRiv :: "runtime \<Rightarrow> RivProject \<Rightarrow> export_error + nat list" where
  "exportToRiv rt project =
     (case serializeAssets rt (assets project) of
        Inl e \<Rightarrow> Inl e
      | Inr asset_docs \<Rightarrow>
          Inr (text_encode rt (json_stringify rt
            \<lparr>pd_version = version project,
             pd_artboards = map serializeArtboard (artboards project),
             pd_animations = map serializeAnimation (animations project),
             pd_stateMachines = map serializeStateMachine (stateMachines project),
             pd_assets = asset_docs\<rparr>)))"

text \<open>
  Projects with a group nested in a group, an animation with a number track and a record
  track, and a state machine with a transition. The parameters are the children of the
  inner group and the \<^verbatim>\<open>locked\<close> flag of the ellipse.
\<close>

definition default_fields :: "string \<Rightarrow> string \<Rightarrow> ShapeFields" where
  "default_fields i n =
     \<lparr>sf_id = i, sf_name = n,
      sf_transform =
        Obj [(''position'', Obj [(''x'', Num 0), (''y'', Num 0)]),
             (''scale'', Obj [(''x'', Num 1), (''y'', Num 1)]),
             (''rotation'', Num 0),
             (''pivot'', Obj [(''x'', Num 0), (''y'', Num 0)])],
      sf_fill =
        Obj [(''type'', Str ''solid''),
             (''color'', Obj [(''r'', Num 128), (''g'', Num 128), (''b'', Num 128),
                              (''a'', Num 1)])],
      sf_stroke = Null, sf_opacity = 1, sf_visible = True, sf_locked = False\<rparr>"

definition sample_animation :: Animation where
  "sample_animation =
     addTrackKeyframe ''transform.position'' 1000 (Obj [(''x'', Num 10), (''y'', Num 0)]) Linear
       (addTrackKeyframe ''transform.position'' 0 (Obj [(''x'', Num 0), (''y'', Num 0)]) Linear
         (addTrack ''transform.position''
           (addTrackKeyframe ''opacity'' 1000 (Num 0) Linear
             (addTrackKeyframe ''opacity'' 0 (Num 1) EaseIn
               (addTrack ''opacity'' (newAnimation ''fade'' ''Fade'' 1000))))))"

definition sample_project :: "shape_tree list \<Rightarrow> bool \<Rightarrow> RivProject" where
  "sample_project inner lck =
     \<lparr>version = ''1.0'',
      artboards =
        [\<lparr>ab_id = ''ab'', ab_name = ''Artboard'', ab_width = 800, ab_height = 600,
          ab_shapes =
            [GroupT (default_fields ''outer'' ''Outer'')
               [GroupT (default_fields ''inner'' ''Inner'') inner],
             EllipseT ((default_fields ''e'' ''E'')\<lparr>sf_locked := lck\<rparr>) 50 50]\<rparr>],
      animations = [sample_animation],
      stateMachines = [click_machine],
      assets = []\<rparr>"

text \<open>
  A scene for the group operations: two empty groups and a rectangle, in a fresh store.
\<close>

definition group_g :: addr where
  "group_g = fst (new_Group ''g'' ''G'' empty_store)"

definition group_h :: addr where
  "group_h = fst (new_Group ''h'' ''H'' (snd (new_Group ''g'' ''G'' empty_store)))"

definition rect_r :: addr where
  "rect_r = fst (new_Rectangle ''r'' ''R'' 100 100
                  (snd (new_Group ''h'' ''H'' (snd (new_Group ''g'' ''G'' empty_store)))))"

definition scene :: store where
  "scene = snd (new_Rectangle ''r'' ''R'' 100 100
                  (snd (new_Group ''h'' ''H'' (snd (new_Group ''g'' ''G'' empty_store)))))"

text \<open>A fresh rectangle alone in a store, with its address.\<close>

definition rect_store :: "addr \<times> store" where
  "rect_store = new_Rectangle ''r'' ''R'' 100 100 empty_store"

text \<open>A click.\<close>

definition click_event :: Event where
  "click_event = \<lparr>ev_type = ''click'', ev_target = None, ev_key = None\<rparr>"

section \<open>Keyframe resolution\<close>

lemma findIndices_below:
  "\<forall>k\<in>set xs. time k < t \<Longrightarrow>
   findIndices (xs @ ys) t i b =
     findIndices ys t (i + length xs) (if xs = [] then b else Some (i + length xs - 1))"
proof (induction xs arbitrary: i b)
  case Nil
  then show ?case by simp
next
  case (Cons x xs)
  then show ?case by (cases xs) (auto simp: Let_def)
qed

lemma findIndices_pair:
  assumes "\<forall>k\<in>set xs. time k < t" "time b < t" "t < time a"
  shows "findIndices (xs @ b # a # ys) t 0 None = (Some (length xs), Some (Suc (length xs)))"
proof -
  have "findIndices ((xs @ [b]) @ a # ys) t 0 None =
        findIndices (a # ys) t (0 + length (xs @ [b])) (Some (0 + length (xs @ [b]) - 1))"
    using findIndices_below[of "xs @ [b]" t "a # ys" 0 None] assms by simp
  then show ?thesis using assms by (simp add: Let_def)
qed


lemma time_ordered_prefix:
  assumes "time_ordered (xs @ b # ys)" "k \<in> set xs"
  shows "time k \<le> time b"
  using assms by (auto simp: time_ordered_def sorted_wrt_append)


lemma insertKeyframe_set: "set (insertKeyframe kf ks) = insert kf (set ks)"
  by (induction ks) auto

lemma insertKeyframe_ordered:
  "time_ordered ks \<Longrightarrow> time_ordered (insertKeyframe kf ks)"
  unfolding time_ordered_def
  by (induction ks) (auto simp: insertKeyframe_set)

lemma addKeyframe_ordered:
  "time_ordered (keyframes track) \<Longrightarrow> time_ordered (keyframes (addKeyframe t v e track))"
  by (simp add: addKeyframe_def insertKeyframe_ordered)

lemma interpolation_rule:
  assumes "keyframes track = xs @ before # after # ys"
      and "\<forall>k\<in>set xs. time k < t" "time before < t" "t < time after"
  shows "getValueAtTime track t =
           interpolate (kvalue before) (kvalue after)
             (applyEasing ((t - time before) / (time after - time before)) (easing before))"
  using findIndices_pair[OF assms(2-4), of ys] assms(1)
  by (simp add: getValueAtTime_def Let_def nth_append)

lemma scenario_keyframes:
  "keyframes scenario_track =
     [] @ \<lparr>time = 0, kvalue = Num 0, easing = Linear\<rparr>
        # \<lparr>time = 100, kvalue = Num 10, easing = EaseIn\<rparr> # []"
  by (simp add: scenario_track_def addKeyframe_def newTrack_def)

lemma scenario_value: "getValueAtTime scenario_track 50 = Inr (Num 5)"
  by (simp add: getValueAtTime_def scenario_track_def addKeyframe_def newTrack_def Let_def)

text \<open>
  C1, as the code has it. In a time-ordered track, between two neighbouring keyframes
  \<open>before\<close> and \<open>after\<close> with \<open>time before < t < time after\<close>, \<^verbatim>\<open>getValueAtTime\<close>
  computes the linear progress \<open>(t - time before) / (time after - time before)\<close>, applies
  the easing of the \<open>before\<close> keyframe to it and interpolates the two values at the eased
  progress. For the track \<^verbatim>\<open>{t:0, v:0, ease:linear}\<close>, \<^verbatim>\<open>{t:100, v:10, ease:ease-in}\<close>
  the before keyframe at time 50 is the linear one, and the value there is 5.
\<close>

theorem getValueAtTime_interpolates:
  assumes "time_ordered (keyframes track)"
      and "keyframes track = xs @ before # after # ys"
      and "time before < t" "t < time after"
  shows "getValueAtTime track t =
           interpolate (kvalue before) (kvalue after)
             (applyEasing ((t - time before) / (time after - time before)) (easing before))
         \<and> getValueAtTime scenario_track 50 = Inr (Num 5)"
proof -
  have "\<forall>k\<in>set xs. time k < t"
    using time_ordered_prefix[of xs before "after # ys"] assms(1-3) by fastforce
  then show ?thesis
    using interpolation_rule[OF assms(2) _ assms(3,4)] scenario_value by simp
qed

theorem getValueAtTime_interpolates_witness:
  "time_ordered (keyframes scenario_track)
   \<and> getValueAtTime scenario_track 50 =
       interpolate (Num 0) (Num 10) (applyEasing ((50 - 0) / (100 - 0)) Linear)
   \<and> interpolate (Num 0) (Num 10) (applyEasing ((50 - 0) / (100 - 0)) Linear) = Inr (Num 5)"
proof -
  have o: "time_ordered (keyframes scenario_track)"
    by (simp add: scenario_keyframes time_ordered_def)
  show ?thesis
    using o getValueAtTime_interpolates[OF o scenario_keyframes, of 50] by simp
qed

text \<open>
  C1 as stated fails: at time 50 the scenario track resolves to 5, not to 2.5.
\<close>

theorem getValueAtTime_scenario_counterexample:
  "getValueAtTime scenario_track 50 = Inr (Num 5)
   \<and> getValueAtTime scenario_track 50 \<noteq> Inr (Num 2.5)"
  using scenario_value by simp








section \<open>Easing\<close>

lemma elastic_at_0: "applyEasing 0 Elastic = 0"
proof -
  have "(0 - 0.075) * (2 * pi) / 0.3 = - (pi / 2)" by simp
  then have "sin ((0 - 0.075) * (2 * pi) / 0.3) = - 1"
    by (simp only: sin_minus sin_pi_half)
  then show ?thesis by simp
qed

lemma elastic_at_1: "applyEasing 1 Elastic = 2049 / 2048"
proof -
  have a: "(1 - 0.075) * (2 * pi) / 0.3 = pi / 6 + 2 * pi * of_int 3" by simp
  have "sin (pi / 6 + 2 * pi * of_int 3) = 1 / 2"
    by (simp only: sin_add sin_int_2pin cos_int_2pin sin_30) simp?
  then have s: "sin ((1 - 0.075) * (2 * pi) / 0.3) = 1 / 2" using a by simp
  have p: "(2::real) powr (- 10 * 1) = 1 / 1024" by (simp add: powr_minus_divide)
  show ?thesis unfolding applyEasing.simps s p by simp
qed

text \<open>
  C7, as the code has it. \<^verbatim>\<open>linear\<close>, \<^verbatim>\<open>ease-in\<close>, \<^verbatim>\<open>ease-out\<close>, \<^verbatim>\<open>ease-in-out\<close> and
  \<^verbatim>\<open>bounce\<close> map 0 to 0 and 1 to 1. \<^verbatim>\<open>elastic\<close> maps 0 to 0, and 1 to
  \<open>1 + 2 powr (- 11)\<close>, that is \<open>2049 / 2048\<close>.
\<close>

theorem applyEasing_boundaries:
  "applyEasing 0 Linear = 0 \<and> applyEasing 1 Linear = 1
   \<and> applyEasing 0 EaseIn = 0 \<and> applyEasing 1 EaseIn = 1
   \<and> applyEasing 0 EaseOut = 0 \<and> applyEasing 1 EaseOut = 1
   \<and> applyEasing 0 EaseInOut = 0 \<and> applyEasing 1 EaseInOut = 1
   \<and> applyEasing 0 Bounce = 0 \<and> applyEasing 1 Bounce = 1
   \<and> applyEasing 0 Elastic = 0 \<and> applyEasing 1 Elastic = 2049 / 2048"
  using elastic_at_0 elastic_at_1 by (simp add: Let_def)

text \<open>C7 as stated fails: the elastic curve does not map 1 to 1.\<close>

theorem applyEasing_elastic_counterexample: "applyEasing 1 Elastic \<noteq> 1"
  unfolding elastic_at_1 by simp

section \<open>Interpolation\<close>

lemma map_of_put_field: "map_of (put_field fs k v) = (map_of fs)(k \<mapsto> v)"
  by (induction fs) auto

lemma blend_field_case:
  "blend_field u v p = (case (u, v) of
             (Some (Num a), Some (Num b)) \<Rightarrow> Some (Num (a + (b - a) * p))
           | _ \<Rightarrow> None)"
  by (cases "(u, v, p)" rule: blend_field.cases) (simp_all split: option.splits jsval.splits)

lemma interpolate_keys_step:
  "interpolate_keys (key # keys) (Obj fs) (Obj gs) p res =
   interpolate_keys keys (Obj fs) (Obj gs) p
     (case blend_field (map_of fs key) (map_of gs key) p of
        Some v \<Rightarrow> put_field res key v
      | None \<Rightarrow> res)"
  by (cases "(map_of fs key, map_of gs key, p)" rule: blend_field.cases) (simp_all split: option.splits jsval.splits)

lemma interpolate_keys_obj:
  "\<exists>r. interpolate_keys keys (Obj fs) (Obj gs) p res = Inr r \<and>
       (\<forall>k. map_of r k =
          (if k \<in> set keys \<and> blend_field (map_of fs k) (map_of gs k) p \<noteq> None
           then blend_field (map_of fs k) (map_of gs k) p else map_of res k))"
proof (induction keys arbitrary: res)
  case Nil
  then show ?case by simp
next
  case (Cons key keys)
  let ?res = "case blend_field (map_of fs key) (map_of gs key) p of
        Some v \<Rightarrow> put_field res key v
      | None \<Rightarrow> res"
  from Cons[of ?res] obtain r where
    r: "interpolate_keys keys (Obj fs) (Obj gs) p ?res = Inr r"
       "\<And>k. map_of r k =
          (if k \<in> set keys \<and> blend_field (map_of fs k) (map_of gs k) p \<noteq> None
           then blend_field (map_of fs k) (map_of gs k) p else map_of ?res k)"
    by blast
  have "interpolate_keys (key # keys) (Obj fs) (Obj gs) p res = Inr r"
    using r(1) by (simp only: interpolate_keys_step)
  moreover have "map_of r k =
          (if k \<in> set (key # keys) \<and> blend_field (map_of fs k) (map_of gs k) p \<noteq> None
           then blend_field (map_of fs k) (map_of gs k) p else map_of res k)" for k
    unfolding r(2)[of k]
    by (cases "blend_field (map_of fs key) (map_of gs key) p") (auto simp: map_of_put_field)
  ultimately show ?case by blast
qed

lemma interpolate_obj:
  "\<exists>r. interpolate (Obj fs) (Obj gs) p = Inr (Obj r) \<and>
       (\<forall>k. map_of r k =
          (case (map_of fs k, map_of gs k) of
             (Some (Num a), Some (Num b)) \<Rightarrow> Some (Num (a + (b - a) * p))
           | _ \<Rightarrow> None))"
proof -
  from interpolate_keys_obj[of "map fst fs" fs gs p "[]"]
  obtain r where r: "interpolate_keys (map fst fs) (Obj fs) (Obj gs) p [] = Inr r"
    "\<And>k. map_of r k =
          (if k \<in> set (map fst fs) \<and> blend_field (map_of fs k) (map_of gs k) p \<noteq> None
           then blend_field (map_of fs k) (map_of gs k) p else map_of [] k)" by blast
  have "interpolate (Obj fs) (Obj gs) p = Inr (Obj r)" using r(1) by simp
  moreover have "map_of r k = blend_field (map_of fs k) (map_of gs k) p" for k
  proof (cases "k \<in> set (map fst fs)")
    case True
    then show ?thesis unfolding r(2)[of k] by auto
  next
    case False
    then have "map_of fs k = None" by (simp add: map_of_eq_None_iff)
    then show ?thesis unfolding r(2)[of k] by simp
  qed
  ultimately show ?thesis unfolding blend_field_case by blast
qed

lemma interpolate_discrete:
  assumes "typeof v \<noteq> ''object'' \<or> typeof w \<noteq> ''object''"
      and "typeof v \<noteq> ''number'' \<or> typeof w \<noteq> ''number''"
  shows "interpolate v w p = Inr (if p < 0.5 then v else w)"
  using assms by (cases v; cases w) auto

lemma interpolate_null:
  "interpolate Null Null p = Inr (Obj [])"
  "interpolate (Obj [(''x'', Num 0)]) Null p = Inl TypeError"
  by simp_all

text \<open>
  C8, as the code has it. Two numbers are blended linearly. For two records the result is
  a new record that holds exactly the fields that are numbers in both the before and the
  after value, each blended linearly; every other field of the before value is absent from
  the result. When the two values are not both numbers and not both of type
  \<^verbatim>\<open>'object'\<close>, the result is the before value when the progress is below 0.5 and the
  after value otherwise.
\<close>

theorem interpolate_by_kind:
  "interpolate (Num a) (Num b) p = Inr (Num (a + (b - a) * p))
   \<and> (\<exists>r. interpolate (Obj fs) (Obj gs) p = Inr (Obj r) \<and>
         (\<forall>k. map_of r k =
            (case (map_of fs k, map_of gs k) of
               (Some (Num x), Some (Num y)) \<Rightarrow> Some (Num (x + (y - x) * p))
             | _ \<Rightarrow> None)))
   \<and> ((typeof v \<noteq> ''object'' \<or> typeof w \<noteq> ''object'')
        \<and> (typeof v \<noteq> ''number'' \<or> typeof w \<noteq> ''number'')
        \<longrightarrow> interpolate v w p = Inr (if p < 0.5 then v else w))"
  using interpolate_obj[of fs gs p] interpolate_discrete[of v w p] by simp

theorem interpolate_by_kind_witness:
  "interpolate (Num 0) (Num 10) (1 / 4) = Inr (Num (0 + (10 - 0) * (1 / 4)))
   \<and> interpolate (Str ''a'') (Bool True) (1 / 4) = Inr (Str ''a'')
   \<and> interpolate (Str ''a'') (Bool True) (3 / 4) = Inr (Bool True)"
  using interpolate_by_kind[of 0 10 "1 / 4" "[]" "[]" "Str ''a''" "Bool True"]
    interpolate_by_kind[of 0 10 "3 / 4" "[]" "[]" "Str ''a''" "Bool True"]
  by simp

text \<open>
  C8 as stated fails: the \<^verbatim>\<open>label\<close> field of the before value, a string, is not in the
  result.
\<close>

theorem interpolate_drops_field_counterexample:
  "interpolate (Obj [(''x'', Num 0), (''label'', Str ''a'')])
               (Obj [(''x'', Num 10), (''label'', Str ''b'')]) (1 / 2)
     = Inr (Obj [(''x'', Num 5)])
   \<and> get_prop (Obj [(''x'', Num 5)]) ''label'' = Inr Undefined
   \<and> get_prop (Obj [(''x'', Num 0), (''label'', Str ''a'')]) ''label'' = Inr (Str ''a'')"
  by simp

section \<open>State machine evaluation\<close>

lemmas machine_defs =
  click_machine_def ghost_machine_def addTransition_def addState_def newStateMachine_def

lemma scan_find:
  "scanTransitions strnum event (parameters sm) (currentState sm) trs =
     map_option t_to (find (candidate strnum event sm) trs)"
  by (induction trs) (auto simp: candidate_def split: option.splits)

text \<open>
  C3, as the code has it. \<^verbatim>\<open>checkTransitions\<close> commits the first transition in
  declaration order that leaves the current state, whose trigger list is empty or, when
  an event is given, holds a trigger matching it (without an event the triggers are not
  looked at; a trigger matches an event of its type whose target and key equal the
  trigger's non-empty \<^verbatim>\<open>targetId\<close> and \<^verbatim>\<open>key\<close>), and whose condition list is empty or
  holds only conditions that are true of the parameters. The current state becomes the
  target, which is returned; when there is no such transition the machine is unchanged
  and \<^verbatim>\<open>null\<close> is returned.
\<close>

theorem checkTransitions_first_candidate:
  "checkTransitions strnum event sm = commit_first (candidate strnum event sm) sm"
  by (simp add: checkTransitions_def commit_first_def scan_find split: option.splits)

theorem checkTransitions_first_candidate_witness:
  "checkTransitions no_numbers (Some click_event) click_machine
     = (Some ''pressed'', click_machine\<lparr>currentState := ''pressed''\<rparr>)"
  using checkTransitions_first_candidate[of no_numbers "Some click_event" click_machine]
  by (simp add: commit_first_def candidate_def trigger_matches_def click_event_def
      machine_defs)

text \<open>
  C3 as stated fails: called without an event, \<^verbatim>\<open>checkTransitions\<close> fires a transition
  whose trigger list is not empty, where the stated rule finds no candidate.
\<close>

theorem checkTransitions_no_event_counterexample:
  "fst (checkTransitions no_numbers None click_machine) = Some ''pressed''
   \<and> fst (commit_first (spec_candidate no_numbers None click_machine) click_machine) = None"
  by (simp add: checkTransitions_def commit_first_def spec_candidate_def machine_defs)

lemma scan_target:
  "scanTransitions strnum event params cur trs = Some target \<Longrightarrow> target \<in> t_to ` set trs"
  by (induction trs) (auto split: if_splits)

lemma reachable_current:
  "reachable strnum sm \<Longrightarrow>
   currentState sm = ''entry'' \<or> currentState sm \<in> t_to ` set (transitions sm)"
proof (induction rule: reachable.induct)
  case (checked sm event)
  then show ?case
    by (auto simp: checkTransitions_def split: option.splits dest: scan_target)
qed (auto simp: newStateMachine_def addState_def addTransition_def setParameter_def)

text \<open>
  C5, as the code has it. In every state machine reachable from construction by
  \<^verbatim>\<open>addState\<close>, \<^verbatim>\<open>addTransition\<close>, \<^verbatim>\<open>setParameter\<close> and \<^verbatim>\<open>checkTransitions\<close>, the
  current state is \<^verbatim>\<open>'entry'\<close> or the target of a declared transition; so it is a key of
  the state map whenever \<^verbatim>\<open>'entry'\<close> and the targets of all declared transitions are.
\<close>

theorem currentState_reachable:
  assumes "reachable strnum sm"
  shows "(currentState sm = ''entry'' \<or> currentState sm \<in> t_to ` set (transitions sm))
     \<and> (''entry'' \<in> fst ` set (states sm)
          \<and> t_to ` set (transitions sm) \<subseteq> fst ` set (states sm)
          \<longrightarrow> currentState sm \<in> fst ` set (states sm))"
proof -
  have c: "currentState sm = ''entry'' \<or> currentState sm \<in> t_to ` set (transitions sm)"
    using reachable_current[OF assms] .
  have "currentState sm \<in> fst ` set (states sm)"
    if "''entry'' \<in> fst ` set (states sm)"
       "t_to ` set (transitions sm) \<subseteq> fst ` set (states sm)"
    using c that by (elim disjE) (simp, blast)
  then show ?thesis using c by simp
qed

theorem currentState_reachable_witness:
  "reachable no_numbers (snd (checkTransitions no_numbers None click_machine))
   \<and> currentState (snd (checkTransitions no_numbers None click_machine)) = ''pressed''
   \<and> currentState (snd (checkTransitions no_numbers None click_machine))
       \<in> fst ` set (states (snd (checkTransitions no_numbers None click_machine)))"
proof -
  let ?sm = "snd (checkTransitions no_numbers None click_machine)"
  have r: "reachable no_numbers ?sm"
    unfolding click_machine_def by (intro reachable.intros)
  have v: "?sm = click_machine\<lparr>currentState := ''pressed''\<rparr>"
    by (simp add: checkTransitions_def machine_defs)
  have k: "''entry'' \<in> fst ` set (states ?sm)
           \<and> t_to ` set (transitions ?sm) \<subseteq> fst ` set (states ?sm)"
    unfolding v by (simp add: machine_defs)
  have "currentState ?sm = ''pressed''" unfolding v by simp
  then show ?thesis using r k currentState_reachable[OF r] by blast
qed

text \<open>
  C5 as stated fails: after construction the current state \<^verbatim>\<open>'entry'\<close> is not a key of
  the empty state map, and a transition to a state id that was never added moves the
  current state there.
\<close>

theorem currentState_undefined_counterexample:
  "currentState (newStateMachine ''m'' ''M'')
     \<notin> fst ` set (states (newStateMachine ''m'' ''M''))
   \<and> fst (checkTransitions no_numbers None ghost_machine) = Some ''ghost''
   \<and> currentState (snd (checkTransitions no_numbers None ghost_machine)) = ''ghost''
   \<and> ''ghost'' \<notin> fst ` set (states (snd (checkTransitions no_numbers None ghost_machine)))"
  by (simp add: checkTransitions_def machine_defs)

section \<open>Applying an animation to a shape\<close>

lemmas animation_defs =
  applyToShape_def newAnimation_def addTrack_def addTrackKeyframe_def rectangle_props_def
  getValueAtTime_def addKeyframe_def newTrack_def setPropertyValue_def

lemma set_path_empty_object: "\<exists>r. set_path (Obj []) parts v = Inr (Obj r)"
proof (induction parts)
  case Nil
  then show ?case by simp
next
  case (Cons part parts)
  then obtain r where r: "set_path (Obj []) parts v = Inr (Obj r)" by blast
  show ?case
  proof (cases parts)
    case Nil
    then show ?thesis by simp
  next
    case (Cons p ps)
    then show ?thesis using r by simp
  qed
qed

lemma set_path_walkable:
  "(\<exists>r. set_path current parts v = Inr r) \<longleftrightarrow> walkable current parts"
proof (induction current parts v rule: set_path.induct)
  case (1 current v)
  then show ?case by simp
next
  case (2 current leaf v)
  then show ?case by (cases current) auto
next
  case (3 current part p ps v)
  show ?case
  proof (cases current)
    case (Obj fs)
    show ?thesis
    proof (cases "map_of fs part")
      case None
      obtain r where "set_path (Obj []) (p # ps) v = Inr (Obj r)"
        using set_path_empty_object by blast
      then show ?thesis using Obj None by (simp add: map_of_put_field)
    next
      case (Some child)
      show ?thesis
      proof (cases "falsy child")
        case True
        obtain r where "set_path (Obj []) (p # ps) v = Inr (Obj r)"
          using set_path_empty_object by blast
        then show ?thesis using Obj Some True by (simp add: map_of_put_field)
      next
        case False
        have "(\<exists>r. set_path child (p # ps) v = Inr r) = walkable child (p # ps)"
          using 3[of child "Obj fs" child] Obj Some False by simp
        then show ?thesis using Obj Some False
          by (auto split: sum.splits)
      qed
    qed
  qed simp_all
qed

lemma setPropertyValue_returns_iff:
  "(\<exists>r. setPropertyValue obj path v = Inr r) \<longleftrightarrow> walkable obj (split_dot path)"
  by (simp add: setPropertyValue_def set_path_walkable)

lemma applyToShape_creates_missing_nodes:
  "\<exists>s. applyToShape stops_animation (rectangle_props ''r'' ''R'' 100 100) 0 = Inr s \<and>
       get_prop s ''fill'' =
         Inr (Obj [(''type'', Str ''solid''),
                   (''color'', Obj [(''r'', Num 128), (''g'', Num 128), (''b'', Num 128),
                                    (''a'', Num 1)]),
                   (''gradient'',
                      Obj [(''stops'', Obj [(''0'', Obj [(''color'', Obj [(''r'', Num 5)])])])])])"
  by (simp add: stops_animation_def animation_defs Let_def)

text \<open>
  C9 fails on the code. A track whose path leads through a node that holds a number, here
  \<^verbatim>\<open>opacity.x\<close> on a fresh rectangle with \<^verbatim>\<open>opacity = 1\<close>, makes \<^verbatim>\<open>applyToShape\<close> throw
  a \<^verbatim>\<open>TypeError\<close>: the node is truthy, so it is not replaced, and the write of \<^verbatim>\<open>x\<close>
  to a number throws in strict code.
\<close>

theorem applyToShape_primitive_node_throws:
  "applyToShape opacity_x_animation (rectangle_props ''r'' ''R'' 100 100) 0 = Inl TypeError"
  by (simp add: opacity_x_animation_def animation_defs Let_def)

section \<open>Group membership and cloning\<close>

lemmas alloc_defs =
  alloc_vector_def alloc_transform_def alloc_color_def alloc_fill_def alloc_stroke_def
  alloc_shape_def

lemmas new_defs =
  new_Shape_def new_Rectangle_def new_Group_def new_Ellipse_def new_Path_def empty_store_def

lemma scene_addrs: "group_g = 6" "group_h = 13" "rect_r = 20"
  by (simp_all add: group_g_def group_h_def rect_r_def new_defs alloc_defs eval_nat_numeral)











lemma clone_rect_value:
  "clone (Suc 0) (fst rect_store) (snd rect_store) =
     Some (13, (snd rect_store)\<lparr>
        vectors := (vectors (snd rect_store))
          (7 \<mapsto> \<lparr>vec_x = 0, vec_y = 0\<rparr>, 8 \<mapsto> \<lparr>vec_x = 1, vec_y = 1\<rparr>,
           9 \<mapsto> \<lparr>vec_x = 0, vec_y = 0\<rparr>),
        transforms := (transforms (snd rect_store))
          (10 \<mapsto> \<lparr>position = 7, scale = 8, rotation = 0, pivot = 9\<rparr>,
           14 \<mapsto> \<lparr>position = 0, scale = 1, rotation = 0, pivot = 2\<rparr>),
        colors := (colors (snd rect_store))
          (11 \<mapsto> \<lparr>red = 128, green = 128, blue = 128, alpha = 1\<rparr>),
        fills := (fills (snd rect_store))
          (12 \<mapsto> \<lparr>fill_type = ''solid'', fill_color = Some 11, fill_gradient = None\<rparr>,
           15 \<mapsto> \<lparr>fill_type = ''solid'', fill_color = Some 4, fill_gradient = None\<rparr>),
        shapes := (shapes (snd rect_store))
          (13 \<mapsto> \<lparr>shape_id = ''r_clone'', shape_name = ''R'' @ copy_suffix, transform = 14,
                  fill = 15, stroke = None, opacity = 1, visible = True, locked = False,
                  parent = None, kind = RectangleKind 100 100 0\<rparr>),
        next_addr := 16\<rparr>)"
  by (simp add: rect_store_def new_defs alloc_defs copy_paint_def spread_transform_def
      spread_fill_def update_shape_def eval_nat_numeral)

lemma clone_rectangle_shares:
  assumes "shapes s this = Some sh" "kind sh = RectangleKind w h cr" "this < next_addr s"
      and "transforms s (transform sh) = Some t" "transform sh < next_addr s"
      and "fills s (fill sh) = Some f" "fill sh < next_addr s"
      and "stroke sh = None"
  shows "\<exists>c s' csh t'. clone (Suc n) this s = Some (c, s') \<and> c \<noteq> this
           \<and> shapes s' c = Some csh \<and> transform csh \<noteq> transform sh
           \<and> transforms s' (transform csh) = Some t' \<and> position t' = position t"
  using assms
  by (simp add: new_defs alloc_defs copy_paint_def spread_transform_def spread_fill_def
      update_shape_def)

lemma clone_group_default_paint:
  assumes "shapes s this = Some sh" "kind sh = GroupKind []" "this < next_addr s"
      and "transforms s (transform sh) = Some t" "transform sh < next_addr s"
  shows "\<exists>c s' csh. clone (Suc n) this s = Some (c, s') \<and> shapes s' c = Some csh
           \<and> stroke csh = None
           \<and> fills s' (fill csh) =
               Some \<lparr>fill_type = ''solid'', fill_color = Some (next_addr s + 4),
                     fill_gradient = None\<rparr>
           \<and> colors s' (next_addr s + 4) =
               Some \<lparr>red = 128, green = 128, blue = 128, alpha = 1\<rparr>"
  using assms
  by (simp add: new_defs alloc_defs spread_transform_def update_shape_def)

lemma clone_group_reparents:
  "\<exists>c s. clone (Suc (Suc 0)) group_g (addChild group_g rect_r scene) = Some (c, s)
     \<and> map_option shape_id (shapes s c) = Some ''g_clone''
     \<and> map_option shape_name (shapes s c) = Some (''G'' @ copy_suffix)
     \<and> (\<exists>k. children_of s c = [k] \<and> k \<noteq> rect_r \<and> parent_of s k = Some c
             \<and> map_option shape_id (shapes s k) = Some ''r_clone'')"
  by (simp add: scene_def scene_addrs new_defs alloc_defs copy_paint_def spread_transform_def
      spread_fill_def update_shape_def addChild_def children_of_def parent_of_def
      set_children_def eval_nat_numeral)

text \<open>
  C10 fails on the code. The clone of a fresh rectangle is a new shape with a new
  transform object, but that transform refers to the position vector of the original:
  after \<^verbatim>\<open>clone.transform.position.x = 5\<close> the original's \<^verbatim>\<open>transform.position.x\<close>,
  which was 0, is 5.
\<close>

theorem clone_shares_position:
  "\<exists>c s. clone (Suc 0) (fst rect_store) (snd rect_store) = Some (c, s)
         \<and> c \<noteq> fst rect_store
         \<and> get_position_x (fst rect_store) s = Some 0
         \<and> get_position_x (fst rect_store) (set_position_x c 5 s) = Some 5"
  unfolding clone_rect_value
  by (simp add: rect_store_def new_defs alloc_defs get_position_x_def set_position_x_def
      eval_nat_numeral)

section \<open>The exported bytes\<close>

lemma sample_project_differs:
  "sample_project [RectangleT (default_fields ''r'' ''R'') 100 100 0] lck
     \<noteq> sample_project [] lck"
  by (simp add: sample_project_def)

lemma export_ignores_locked:
  "exportToRiv rt (sample_project inner True) = exportToRiv rt (sample_project inner False)"
  by (simp add: sample_project_def exportToRiv_def serializeArtboard_def base_doc_def)

text \<open>
  C4 fails on the code. \<^verbatim>\<open>serializeShape\<close> writes a group as its base record, without a
  type and without its children. A project whose artboard holds a group nested in a
  group, with a rectangle in the inner group, is exported (whatever the runtime functions
  are) to the very bytes of the project whose inner group is empty, and the two projects
  differ: no importer can give both back.
\<close>

theorem export_drops_group_children:
  "exportToRiv rt (sample_project [RectangleT (default_fields ''r'' ''R'') 100 100 0] lck)
     = exportToRiv rt (sample_project [] lck)
   \<and> (\<exists>bytes. exportToRiv rt (sample_project [] lck) = Inr bytes)
   \<and> sample_project [RectangleT (default_fields ''r'' ''R'') 100 100 0] lck
       \<noteq> sample_project [] lck"
  using sample_project_differs[of lck]
  by (simp add: sample_project_def exportToRiv_def serializeArtboard_def)

end
